theory Spec2Isabelle
  imports Main "HOL-Library.Sublist"
begin

section \<open>JavaScript strings\<close>

text \<open>
  A JavaScript string is modelled as a \<^typ>\<open>string\<close> (a list of characters); an optional
  value (\<open>T | undefined\<close>) as an \<^typ>\<open>'a option\<close> with \<open>None\<close> for \<open>undefined\<close>.
\<close>

text \<open>\<open>s.includes(t)\<close>: \<open>t\<close> occurs in \<open>s\<close> as a contiguous run of characters.\<close>

fun str_includes :: "string \<Rightarrow> string \<Rightarrow> bool" where
  "str_includes [] t = (t = [])"
| "str_includes (c # s) t = (prefix t (c # s) \<or> str_includes s t)"

text \<open>\<open>m?.includes(t)\<close> used as a condition: \<open>undefined\<close> is falsy.\<close>

definition optIncludes :: "string option \<Rightarrow> string \<Rightarrow> bool" where
  "optIncludes m t = (case m of None \<Rightarrow> False | Some s \<Rightarrow> str_includes s t)"

text \<open>Truthiness of an optional boolean, as in \<open>if (userMatched && ...)\<close> and \<open>Boolean(x)\<close>.\<close>

definition truthy :: "bool option \<Rightarrow> bool" where
  "truthy b = (case b of None \<Rightarrow> False | Some v \<Rightarrow> v)"


section \<open>ShopLogin: state, actions, presentation mode policy\<close>

datatype PresentationMode = Button | Card

datatype ParentTheme = Light | Dark

record FooterPolicy =
  fp_text :: string
  fp_links :: "(string \<times> (string \<times> string) option) list"

record ShopLoginState =
  consented :: bool
  cookied :: bool
  dismissed :: bool
  footerPolicy :: "FooterPolicy option"
  loaded :: bool
  localPresentationMode :: PresentationMode
  loginHint :: "string option"
  matched :: bool
  mountedTimestamp :: "int option"
  parentTheme :: ParentTheme
  processing :: bool
  textVariant :: "string option"

record GetLocalPresentationModeParams =
  gp_dismissed :: bool
  gp_originalPresentationMode :: PresentationMode
  gp_userMatched :: "bool option"
  gp_userRecognized :: bool

definition getLocalPresentationMode :: "GetLocalPresentationModeParams \<Rightarrow> PresentationMode" where
  "getLocalPresentationMode p =
     (if truthy (gp_userMatched p) \<and> \<not> gp_dismissed p then Card
      else if gp_originalPresentationMode p = Button then Button
      else if gp_userRecognized p \<and> \<not> gp_dismissed p then Card else Button)"

record IframeLoadedPayload =
  pl_consented :: "bool option"
  pl_userFound :: bool
  pl_footerPolicy :: "FooterPolicy option"
  pl_presentation :: PresentationMode
  pl_loginHintMatch :: "bool option"

text \<open>
  The action union, discriminated by its \<open>type\<close> field. \<open>OtherAction t\<close> stands for an
  action object whose \<open>type\<close> is the string \<open>t\<close>, which the \<open>switch\<close> sends to \<open>default\<close>.
\<close>

datatype ShopLoginAction =
    Dismiss
  | IframeLoaded IframeLoadedPayload
  | Mounted
  | ResetState
  | SetLocalPresentationMode PresentationMode
  | SetParentTheme ParentTheme
  | SetProcessing bool
  | UserMatched bool
  | OtherAction string

fun actionType :: "ShopLoginAction \<Rightarrow> string" where
  "actionType Dismiss = ''dismiss''"
| "actionType (IframeLoaded _) = ''iframeLoaded''"
| "actionType Mounted = ''mounted''"
| "actionType ResetState = ''resetState''"
| "actionType (SetLocalPresentationMode _) = ''setLocalPresentationMode''"
| "actionType (SetParentTheme _) = ''setParentTheme''"
| "actionType (SetProcessing _) = ''setProcessing''"
| "actionType (UserMatched _) = ''userMatched''"
| "actionType (OtherAction t) = t"

definition handledTypes :: "string list" where
  "handledTypes = [''dismiss'', ''iframeLoaded'', ''mounted'', ''resetState'',
     ''setLocalPresentationMode'', ''setParentTheme'', ''setProcessing'', ''userMatched'']"

definition initialState :: ShopLoginState where
  "initialState = \<lparr> consented = False, cookied = False, dismissed = False,
     footerPolicy = None, loaded = False, localPresentationMode = Button,
     loginHint = None, matched = False, mountedTimestamp = None,
     parentTheme = Light, processing = False, textVariant = None \<rparr>"

text \<open>
  \<open>createInitialState\<close>: \<open>presentationMode\<close> defaults to \<open>'button'\<close>; the login hint is read
  from the page URL, which is the parameter \<open>urlLoginHint\<close> here (\<open>None\<close> when the URL does
  not parse or has no \<open>login_hint\<close>).
\<close>

definition createInitialState ::
  "string option \<Rightarrow> PresentationMode option \<Rightarrow> string option \<Rightarrow> ShopLoginState" where
  "createInitialState urlLoginHint presentationMode tv =
     initialState \<lparr> localPresentationMode :=
                       (case presentationMode of None \<Rightarrow> Button | Some m \<Rightarrow> m),
                    loginHint := urlLoginHint,
                    textVariant := tv \<rparr>"

text \<open>
  \<open>shopLoginReducer\<close>. The \<open>'mounted'\<close> case evaluates \<open>Date.now()\<close>; the clock reading is
  the explicit first argument \<open>now\<close>.
\<close>

fun shopLoginReducer :: "int \<Rightarrow> ShopLoginState \<Rightarrow> ShopLoginAction \<Rightarrow> ShopLoginState" where
  "shopLoginReducer now state Dismiss =
     state \<lparr> dismissed := True, localPresentationMode := Button \<rparr>"
| "shopLoginReducer now state (IframeLoaded payload) =
     state \<lparr> consented := truthy (pl_consented payload),
             cookied := pl_userFound payload,
             footerPolicy := pl_footerPolicy payload,
             loaded := True,
             localPresentationMode := pl_presentation payload,
             matched := truthy (pl_loginHintMatch payload) \<rparr>"
| "shopLoginReducer now state Mounted = state \<lparr> mountedTimestamp := Some now \<rparr>"
| "shopLoginReducer now state ResetState = initialState"
| "shopLoginReducer now state (SetLocalPresentationMode m) =
     state \<lparr> localPresentationMode := m \<rparr>"
| "shopLoginReducer now state (SetParentTheme t) = state \<lparr> parentTheme := t \<rparr>"
| "shopLoginReducer now state (SetProcessing b) = state \<lparr> processing := b \<rparr>"
| "shopLoginReducer now state (UserMatched userCookieExists) =
     state \<lparr> cookied := userCookieExists,
             localPresentationMode := (if userCookieExists then Button else Card),
             loginHint := None,
             matched := True \<rparr>"
| "shopLoginReducer now state (OtherAction t) = state"


text \<open>
  A run of the reducer: the actions are applied in order, each with the clock reading at
  the time it is reduced.
\<close>

fun runActions :: "ShopLoginState \<Rightarrow> (int \<times> ShopLoginAction) list \<Rightarrow> ShopLoginState" where
  "runActions state [] = state"
| "runActions state ((now, action) # rest) = runActions (shopLoginReducer now state action) rest"

text \<open>The actions that carry \<open>'card'\<close> as the presentation mode to store.\<close>

definition writesCard :: "ShopLoginAction \<Rightarrow> bool" where
  "writesCard action =
     (case action of
        IframeLoaded payload \<Rightarrow> pl_presentation payload = Card
      | SetLocalPresentationMode m \<Rightarrow> m = Card
      | UserMatched userCookieExists \<Rightarrow> \<not> userCookieExists
      | _ \<Rightarrow> False)"

text \<open>A run in which no action carrying \<open>'card'\<close> is applied to a dismissed state.\<close>

fun noCardWhileDismissed :: "ShopLoginState \<Rightarrow> (int \<times> ShopLoginAction) list \<Rightarrow> bool" where
  "noCardWhileDismissed state [] = True"
| "noCardWhileDismissed state ((now, action) # rest) =
     (\<not> (dismissed state \<and> writesCard action)
      \<and> noCardWhileDismissed (shopLoginReducer now state action) rest)"

definition dismissedIsButton :: "ShopLoginState \<Rightarrow> bool" where
  "dismissedIsButton state = (dismissed state \<longrightarrow> localPresentationMode state = Button)"


section \<open>Bugsnag: the \<open>onError\<close> filter\<close>

definition MONORAIL_NETWORK_ERROR_BACKPRESSURE_MARKER :: string where
  "MONORAIL_NETWORK_ERROR_BACKPRESSURE_MARKER = ''Backpressure applied''"

definition MONORAIL_NETWORK_ERROR_MARKER :: string where
  "MONORAIL_NETWORK_ERROR_MARKER =
     ''A network failure may have prevented the request from completing''"

definition UNACTIONABLE_NETWORK_ERRORS :: "string list" where
  "UNACTIONABLE_NETWORK_ERRORS =
     [''Load failed'', ''Failed to fetch'', ''when attempting to fetch resource'']"

definition DYNAMIC_IMPORT_ERRORS :: "string list" where
  "DYNAMIC_IMPORT_ERRORS =
     [''Failed to fetch dynamically imported module'', ''Importing a module script failed'']"

definition SANDBOXED_COOKIE_ERROR_MARKER :: string where
  "SANDBOXED_COOKIE_ERROR_MARKER =
     ''Failed to read the '' @ [CHR 0x27] @ ''cookie'' @ [CHR 0x27] @ '' property from ''
       @ [CHR 0x27] @ ''Document'' @ [CHR 0x27]"

definition SANDBOXED_MESSAGE_MARKER :: string where
  "SANDBOXED_MESSAGE_MARKER = ''sandboxed''"

definition CROSS_ORIGIN_FRAME_ERROR_MARKER :: string where
  "CROSS_ORIGIN_FRAME_ERROR_MARKER = ''Blocked a frame with origin''"

definition CROSS_ORIGIN_FRAME_ACCESS_MARKER :: string where
  "CROSS_ORIGIN_FRAME_ACCESS_MARKER = ''from accessing a cross-origin frame''"

definition SHOP_PAY_PAYMENT_REQUEST_FEATURE_ALLOWLIST :: "string list" where
  "SHOP_PAY_PAYMENT_REQUEST_FEATURE_ALLOWLIST =
     [''ShopPayPaymentRequest'', ''ShopPayPaymentRequestButton'', ''ShopPayPaymentRequestLogin'']"

definition UNACTIONABLE_ERROR_CLASSES :: "string list" where
  "UNACTIONABLE_ERROR_CLASSES =
     [''NotFoundError'', ''NotSupportedError'', ''ReferenceError'', ''SyntaxError'', ''TypeError'']"

datatype NetworkErrorType = NetworkError | DynamicImportError

record StackFrame =
  inProject :: bool

record BugsnagException =
  errorClass :: string
  message :: "string option"
  stacktrace :: "StackFrame list"

text \<open>Values stored in a metadata section.\<close>

datatype JsValue = JUndefined | JBool bool | JString string | JStrings "string list"

type_synonym MetadataSection = "string \<rightharpoonup> JsValue"

type_synonym Metadata = "string \<rightharpoonup> MetadataSection"

record Device =
  dev_locale :: "string option"
  dev_userAgent :: string
  dev_orientation :: "string option"
  dev_time :: string

record BugsnagEvent =
  exceptions :: "BugsnagException list"
  device :: "Device option"
  metaData :: "Metadata option"
  request :: "string option"

text \<open>
  What the filter reads from the browser and the build: \<open>isoNavigator\<close>, \<open>isoWindow\<close>,
  \<open>isoDocument\<close>, the clock and \<open>process.env.BUILD_LOCALE\<close>.
\<close>

record Environment =
  env_locale :: "string option"
  env_userAgent :: string
  env_orientation :: "string option"
  env_isoTime :: string
  env_buildLocale :: "string option"
  env_hostname :: "string option"
  env_href :: string
  env_shopJsUrls :: "string list"
  env_featureAssetKeys :: "string list option"

definition isMonorailNetworkError :: "string option \<Rightarrow> bool" where
  "isMonorailNetworkError errorMessage =
     (optIncludes errorMessage MONORAIL_NETWORK_ERROR_MARKER
      \<or> optIncludes errorMessage MONORAIL_NETWORK_ERROR_BACKPRESSURE_MARKER)"

definition isIgnorable :: "BugsnagException \<Rightarrow> string option \<Rightarrow> bool" where
  "isIgnorable exception feature =
     (let isSandboxedCookieError =
            (errorClass exception = ''SecurityError''
             \<and> optIncludes (message exception) SANDBOXED_COOKIE_ERROR_MARKER
             \<and> optIncludes (message exception) SANDBOXED_MESSAGE_MARKER);
          isCrossOriginFrameAccessError =
            (errorClass exception = ''SecurityError''
             \<and> optIncludes (message exception) CROSS_ORIGIN_FRAME_ERROR_MARKER
             \<and> optIncludes (message exception) CROSS_ORIGIN_FRAME_ACCESS_MARKER);
          isShopPayPaymentRequestFeature =
            (case feature of None \<Rightarrow> False
             | Some f \<Rightarrow> f \<in> set SHOP_PAY_PAYMENT_REQUEST_FEATURE_ALLOWLIST);
          isInProject = list_ex inProject (stacktrace exception)
      in \<not> isInProject \<or> isSandboxedCookieError
         \<or> (isCrossOriginFrameAccessError \<and> isShopPayPaymentRequestFeature))"

definition isUnactionable :: "BugsnagException \<Rightarrow> bool" where
  "isUnactionable exception = (errorClass exception \<in> set UNACTIONABLE_ERROR_CLASSES)"

definition isNetworkError :: "BugsnagException \<Rightarrow> bool" where
  "isNetworkError exception =
     (errorClass exception = ''NetworkError''
      \<or> list_ex (\<lambda>networkMessage. optIncludes (message exception) networkMessage)
           UNACTIONABLE_NETWORK_ERRORS
      \<or> isMonorailNetworkError (message exception))"

definition isDynamicImportError :: "BugsnagException \<Rightarrow> bool" where
  "isDynamicImportError exception =
     list_ex (\<lambda>importErrorMessage. optIncludes (message exception) importErrorMessage)
       DYNAMIC_IMPORT_ERRORS"

text \<open>\<open>metadata.custom?.feature\<close>, kept only when it is a string.\<close>

definition featureOf :: "Metadata \<Rightarrow> string option" where
  "featureOf metadata =
     (case metadata ''custom'' of
        None \<Rightarrow> None
      | Some custom \<Rightarrow> (case custom ''feature'' of Some (JString f) \<Rightarrow> Some f | _ \<Rightarrow> None))"

definition optString :: "string option \<Rightarrow> JsValue" where
  "optString v = (case v of None \<Rightarrow> JUndefined | Some s \<Rightarrow> JString s)"

text \<open>The tail of the filter: the event that is let through gets device, metadata and request.\<close>

definition enrichEvent :: "Environment \<Rightarrow> Metadata \<Rightarrow> BugsnagEvent \<Rightarrow> BugsnagEvent" where
  "enrichEvent env metadata event =
     (let featureAssetsNonEmpty =
            (case env_featureAssetKeys env of None \<Rightarrow> False | Some ks \<Rightarrow> length ks > 0);
          eventMeta = (case metaData event of None \<Rightarrow> Map.empty | Some m \<Rightarrow> m);
          eventCustom = (case eventMeta ''custom'' of None \<Rightarrow> Map.empty | Some c \<Rightarrow> c);
          metaCustom = (case metadata ''custom'' of None \<Rightarrow> Map.empty | Some c \<Rightarrow> c);
          custom = (eventCustom ++ metaCustom)
            (''beta'' \<mapsto> JBool True,
             ''bundleLocale'' \<mapsto> optString (env_buildLocale env),
             ''compactUX'' \<mapsto> JBool True,
             ''domain'' \<mapsto> optString (env_hostname env),
             ''shopJsUrls'' \<mapsto> JStrings (env_shopJsUrls env),
             ''shopJsFeatureAssetsExist'' \<mapsto> JBool featureAssetsNonEmpty)
      in event \<lparr> device := Some \<lparr> dev_locale = env_locale env,
                                   dev_userAgent = env_userAgent env,
                                   dev_orientation = env_orientation env,
                                   dev_time = env_isoTime env \<rparr>,
                  metaData := Some ((eventMeta ++ metadata)(''custom'' \<mapsto> custom)),
                  request := Some (env_href env) \<rparr>)"

text \<open>
  The filter returns \<open>false\<close> or falls off its end (\<open>undefined\<close>). Its effects are the calls of
  \<open>onNetworkError\<close>, recorded in order with their argument (\<open>None\<close>: called without one), and
  the mutation of the event.
\<close>

datatype OnErrorReturn = ReturnFalse | ReturnUndefined

record OnErrorOutcome =
  returned :: OnErrorReturn
  networkErrorCalls :: "NetworkErrorType option list"
  eventAfter :: BugsnagEvent

definition handleCreateBugsnagParamsError ::
  "Environment \<Rightarrow> BugsnagEvent \<Rightarrow> Metadata \<Rightarrow> OnErrorOutcome" where
  "handleCreateBugsnagParamsError env event metadata =
     (case exceptions event of
        [] \<Rightarrow> \<lparr> returned = ReturnFalse, networkErrorCalls = [], eventAfter = event \<rparr>
      | exception # _ \<Rightarrow>
          if isIgnorable exception (featureOf metadata)
          then \<lparr> returned = ReturnFalse, networkErrorCalls = [], eventAfter = event \<rparr>
          else if isUnactionable exception
          then \<lparr> returned = ReturnFalse, networkErrorCalls = [], eventAfter = event \<rparr>
          else if isDynamicImportError exception
          then \<lparr> returned = ReturnFalse, networkErrorCalls = [Some DynamicImportError],
                 eventAfter = event \<rparr>
          else if isNetworkError exception
          then \<lparr> returned = ReturnFalse, networkErrorCalls = [None], eventAfter = event \<rparr>
          else \<lparr> returned = ReturnUndefined, networkErrorCalls = [],
                 eventAfter = enrichEvent env metadata event \<rparr>)"

text \<open>\<open>Bugsnag.handleNetworkError\<close>: the error type recorded, \<open>'NetworkError'\<close> by default.\<close>

definition handleNetworkError :: "NetworkErrorType option \<Rightarrow> NetworkErrorType" where
  "handleNetworkError errorType = (case errorType of None \<Rightarrow> NetworkError | Some t \<Rightarrow> t)"


text \<open>An environment and an event with one in-project exception, for examples.\<close>

definition sampleEnvironment :: Environment where
  "sampleEnvironment = \<lparr> env_locale = Some ''en-US'', env_userAgent = ''Mozilla/5.0'',
     env_orientation = None, env_isoTime = ''2024-01-01T00:00:00.000Z'',
     env_buildLocale = Some ''en'', env_hostname = Some ''shop.example'',
     env_href = ''https://shop.example/'', env_shopJsUrls = [],
     env_featureAssetKeys = None \<rparr>"

definition sampleEvent :: "string \<Rightarrow> string \<Rightarrow> BugsnagEvent" where
  "sampleEvent cls msg = \<lparr> exceptions = [\<lparr> errorClass = cls, message = Some msg,
       stacktrace = [\<lparr> inProject = True \<rparr>] \<rparr>],
     device = None, metaData = None, request = None \<rparr>"


section \<open>OpenTelemetry: \<open>ExporterWithRetries\<close>\<close>

text \<open>
  JavaScript numbers are IEEE 754 doubles. Their type is the type parameter \<open>'n\<close>; wherever
  the code computes with them, the multiplication \<open>*\<close> of numbers is the parameter \<open>numberTimes\<close>
  and the number written by an integer literal the parameter \<open>numberOf\<close>. Nothing is assumed of
  either.
\<close>

record 'n RetryAfter =
  seconds :: 'n

record 'n ClientErrorMetadata =
  retryAfter :: "'n RetryAfter option"

text \<open>
  What the wrapped exporter's promise can reject with: an \<open>OpenTelemetryClientError\<close> with its
  optional metadata, or any other value.
\<close>

datatype 'n ExportError =
  OpenTelemetryClientError "'n ClientErrorMetadata option" | OtherError string

datatype 'n ExportOutcome = Exported | Failed "'n ExportError"

text \<open>\<open>error.metadata?.retryAfter\<close> of an \<open>OpenTelemetryClientError\<close>; nothing for other errors.\<close>

fun retryAfterOf :: "'n ExportError \<Rightarrow> 'n RetryAfter option" where
  "retryAfterOf (OpenTelemetryClientError None) = None"
| "retryAfterOf (OpenTelemetryClientError (Some md)) = retryAfter md"
| "retryAfterOf (OtherError _) = None"

text \<open>
  The observable steps of an export: a call of the wrapped exporter with the payload, the
  caller's options and the \<open>keepalive\<close> read for this call, and a timer armed with a delay in
  milliseconds.
\<close>

datatype ('p, 'o, 'n) ExportStep = ExporterCall 'p 'o bool | SetTimeout 'n

datatype 'n Settlement = Resolved | Rejected "'n ExportError"

text \<open>
  The wrapped exporter is given by the outcome of each of its successive calls and
  \<open>getKeepalive\<close> by its successive readings; the last argument counts the calls made so far.
  The result is \<open>None\<close> when the returned promise never settles.
\<close>

partial_function (option) exportMetrics ::
  "('n \<Rightarrow> 'n \<Rightarrow> 'n) \<Rightarrow> (int \<Rightarrow> 'n) \<Rightarrow> (nat \<Rightarrow> 'n ExportOutcome) \<Rightarrow> (nat \<Rightarrow> bool)
     \<Rightarrow> 'p \<Rightarrow> 'o \<Rightarrow> nat \<Rightarrow> (('p, 'o, 'n) ExportStep list \<times> 'n Settlement) option" where
  "exportMetrics numberTimes numberOf exporter getKeepalive metrics options n =
     (case exporter n of
        Exported \<Rightarrow> Some ([ExporterCall metrics options (getKeepalive n)], Resolved)
      | Failed error \<Rightarrow>
          (case retryAfterOf error of
             Some ra \<Rightarrow>
               Option.bind (exportMetrics numberTimes numberOf exporter getKeepalive metrics options (Suc n))
                 (\<lambda>retry. Some (ExporterCall metrics options (getKeepalive n)
                                  # SetTimeout (numberTimes (seconds ra) (numberOf 1000)) # fst retry,
                                Resolved))
           | None \<Rightarrow> Some ([ExporterCall metrics options (getKeepalive n)], Rejected error)))"

partial_function (option) exportLogs ::
  "('n \<Rightarrow> 'n \<Rightarrow> 'n) \<Rightarrow> (int \<Rightarrow> 'n) \<Rightarrow> (nat \<Rightarrow> 'n ExportOutcome) \<Rightarrow> (nat \<Rightarrow> bool)
     \<Rightarrow> 'p \<Rightarrow> 'o \<Rightarrow> nat \<Rightarrow> (('p, 'o, 'n) ExportStep list \<times> 'n Settlement) option" where
  "exportLogs numberTimes numberOf exporter getKeepalive logs options n =
     (case exporter n of
        Exported \<Rightarrow> Some ([ExporterCall logs options (getKeepalive n)], Resolved)
      | Failed error \<Rightarrow>
          (case retryAfterOf error of
             Some ra \<Rightarrow>
               Option.bind (exportLogs numberTimes numberOf exporter getKeepalive logs options (Suc n))
                 (\<lambda>retry. Some (ExporterCall logs options (getKeepalive n)
                                  # SetTimeout (numberTimes (seconds ra) (numberOf 1000)) # fst retry,
                                Resolved))
           | None \<Rightarrow> Some ([ExporterCall logs options (getKeepalive n)], Rejected error)))"

text \<open>An outcome after which the export is tried again.\<close>

definition retryable :: "'n ExportOutcome \<Rightarrow> bool" where
  "retryable out = (case out of Exported \<Rightarrow> False | Failed error \<Rightarrow> retryAfterOf error \<noteq> None)"

text \<open>
  Exporters for examples, over the integers as numbers (the product of 2 and 1000 is exact
  in doubles too). The first call of each is refused with a \<open>retryAfter\<close> of two seconds;
  every later call of the first succeeds, every later call of the second fails with
  another error.
\<close>

definition retryThenSuccess :: "nat \<Rightarrow> int ExportOutcome" where
  "retryThenSuccess i =
     (if i = 0 then Failed (OpenTelemetryClientError (Some \<lparr> retryAfter = Some \<lparr> seconds = 2 \<rparr> \<rparr>))
      else Exported)"

definition retryThenOffline :: "nat \<Rightarrow> int ExportOutcome" where
  "retryThenOffline i =
     (if i = 0 then Failed (OpenTelemetryClientError (Some \<lparr> retryAfter = Some \<lparr> seconds = 2 \<rparr> \<rparr>))
      else Failed (OtherError ''offline''))"


section \<open>Windoid message handling\<close>





















section \<open>Posting messages to the iframe\<close>








section \<open>Dynamic import errors\<close>

record JsError =
  err_message :: string

text \<open>
  \<open>s.replace(pattern, replacement)\<close> with a string pattern: the first occurrence of the
  pattern is replaced. The only replacement used is the empty string, so the \<open>$\<close> patterns
  of replacement strings are not modelled.
\<close>

fun replaceFirst :: "string \<Rightarrow> string \<Rightarrow> string \<Rightarrow> string" where
  "replaceFirst pat rep [] = (if pat = [] then rep else [])"
| "replaceFirst pat rep (c # s) =
     (if prefix pat (c # s) then rep @ drop (length pat) (c # s)
      else c # replaceFirst pat rep s)"

text \<open>
  White space and line terminators among the 8-bit characters: tab, line feed, vertical tab,
  form feed, carriage return, space and no-break space.
\<close>

definition isWhiteSpace :: "char \<Rightarrow> bool" where
  "isWhiteSpace c = (c \<in> set [CHR 0x09, CHR 0x0A, CHR 0x0B, CHR 0x0C, CHR 0x0D, CHR 0x20, CHR 0xA0])"

definition trim :: "string \<Rightarrow> string" where
  "trim s = rev (dropWhile isWhiteSpace (rev (dropWhile isWhiteSpace s)))"

definition DYNAMIC_IMPORT_PREFIX :: string where
  "DYNAMIC_IMPORT_PREFIX = ''Failed to fetch dynamically imported module: ''"

text \<open>
  \<open>new isoWindow.URL(url)\<close> is the parameter \<open>URL\<close>: it gives the parsed URL, or \<open>None\<close> where the
  constructor throws.
\<close>

definition convertStringToUrl :: "(string \<Rightarrow> 'u option) \<Rightarrow> string \<Rightarrow> 'u option" where
  "convertStringToUrl URL url = (case URL url of Some u \<Rightarrow> Some u | None \<Rightarrow> None)"

definition isGenericModuleError :: "JsError \<Rightarrow> bool" where
  "isGenericModuleError error = str_includes (err_message error) ''Importing a module script failed''"

definition extractUrlFromError :: "(string \<Rightarrow> 'u option) \<Rightarrow> JsError \<Rightarrow> 'u option" where
  "extractUrlFromError URL error =
     convertStringToUrl URL (trim (replaceFirst DYNAMIC_IMPORT_PREFIX [] (err_message error)))"

text \<open>
  The reading of the specification, for comparison: the text is stripped from the message
  as a prefix (a message that does not begin with it is left as it is), then trimmed and
  parsed.
\<close>

definition stripPrefix :: "string \<Rightarrow> string \<Rightarrow> string" where
  "stripPrefix p s = (if prefix p s then drop (length p) s else s)"

definition spec_extractUrlFromError :: "(string \<Rightarrow> 'u option) \<Rightarrow> JsError \<Rightarrow> 'u option" where
  "spec_extractUrlFromError URL error =
     URL (trim (stripPrefix DYNAMIC_IMPORT_PREFIX (err_message error)))"

text \<open>A URL constructor for examples: it accepts exactly the strings that begin with \<open>https://\<close>.\<close>

definition httpsOnlyURL :: "string \<Rightarrow> string option" where
  "httpsOnlyURL s = (if prefix ''https://'' s then Some s else None)"


section \<open>OpenTelemetry: grouping errors\<close>

text \<open>The record \<open>opentelErrorGrouping\<close>, its entries in insertion order.\<close>

definition opentelErrorGrouping :: "(string \<times> string) list" where
  "opentelErrorGrouping =
     [(''blockedRequest'', ''Blocked Request''),
      (''emptyeEventCreatedAtMs'', ''event_created_at_ms metadata field cannot be empty''),
      (''errorParsingCreatedAtMs'', ''Error parsing: X-Monorail-Edge-Event-Created-At-Ms''),
      (''failedToReadRequestBody'', ''Failed to read request body''),
      (''incorrectContentType'',
         ''Incorrect Content-Type. Expected: application/json or text/plain''),
      (''methodNotAllowed'', ''Method Not Allowed''),
      (''noPermissionToGetURL'', ''Your client does not have permission to get URL''),
      (''noResponseFromEdge'', ''No response from edge''),
      (''schemaValidationError'', ''Schema validation error'')]"

text \<open>\<open>Object.values\<close> and \<open>Object.entries\<close> of a record.\<close>

definition objectValues :: "(string \<times> string) list \<Rightarrow> string list" where
  "objectValues obj = map snd obj"

definition objectKeys :: "(string \<times> string) list \<Rightarrow> string list" where
  "objectKeys obj = map fst obj"

text \<open>
  The array pattern \<open>[_, value]\<close> applied to a string binds \<open>value\<close> to its second character
  (a string of length one), or to \<open>undefined\<close> when there is none.
\<close>

definition secondElement :: "string \<Rightarrow> string option" where
  "secondElement s = (case s of _ # c # _ \<Rightarrow> Some [c] | _ \<Rightarrow> None)"

text \<open>\<open>s[0]\<close> of a string: its first character, or \<open>undefined\<close>.\<close>

definition firstElement :: "string \<Rightarrow> string option" where
  "firstElement s = (case s of c # _ \<Rightarrow> Some [c] | [] \<Rightarrow> None)"

text \<open>\<open>message.includes(value)\<close>, where an \<open>undefined\<close> argument is searched as \<open>"undefined"\<close>.\<close>

definition includesValue :: "string \<Rightarrow> string option \<Rightarrow> bool" where
  "includesValue msg value =
     str_includes msg (case value of None \<Rightarrow> ''undefined'' | Some v \<Rightarrow> v)"

text \<open>
  \<open>groupOpentelError\<close>: \<open>find\<close> runs over \<open>Object.values(opentelErrorGrouping)\<close>, so each element
  is a message string, and the callback's pattern \<open>[_, value]\<close> takes that string apart.
\<close>

definition groupOpentelError :: "JsError \<Rightarrow> string" where
  "groupOpentelError caughtError =
     (let groupEntry = find (\<lambda>entry. includesValue (err_message caughtError) (secondElement entry))
                         (objectValues opentelErrorGrouping)
      in case (case groupEntry of None \<Rightarrow> None | Some e \<Rightarrow> firstElement e) of
           None \<Rightarrow> ''otherErrors''
         | Some g \<Rightarrow> (if g = [] then ''otherErrors'' else g))"


section \<open>Facts about strings\<close>

lemma str_includes_iff: "str_includes s t \<longleftrightarrow> (\<exists>ps ss. s = ps @ t @ ss)"
proof -
  have "str_includes s t \<longleftrightarrow> sublist t s"
    by (induction s) (simp_all add: sublist_Cons_right)
  then show ?thesis by (simp add: sublist_def)
qed

lemma str_includes_trans: "str_includes s t \<Longrightarrow> str_includes t u \<Longrightarrow> str_includes s u"
  unfolding str_includes_iff
proof -
  assume "\<exists>ps ss. s = ps @ t @ ss" and "\<exists>ps ss. t = ps @ u @ ss"
  then obtain ps ss ps' ss' where "s = ps @ t @ ss" "t = ps' @ u @ ss'" by blast
  then have "s = (ps @ ps') @ u @ (ss' @ ss)" by simp
  then show "\<exists>ps ss. s = ps @ u @ ss" by blast
qed

lemma replaceFirst_absent: "\<not> str_includes s pat \<Longrightarrow> replaceFirst pat rep s = s"
  by (induction s) auto

lemma replaceFirst_prefix: "pat \<noteq> [] \<Longrightarrow> replaceFirst pat rep (pat @ rest) = rep @ rest"
  by (cases pat) auto

text \<open>
  The occurrence that is replaced is the first one: the one before which the pattern does
  not occur, not even overlapping it.
\<close>

lemma replaceFirst_first:
  "pat \<noteq> [] \<Longrightarrow> \<not> str_includes (butlast (pre @ pat)) pat
   \<Longrightarrow> replaceFirst pat rep (pre @ pat @ rest) = pre @ rep @ rest"
proof (induction pre)
  case Nil
  then show ?case by (simp add: replaceFirst_prefix)
next
  case (Cons a pre)
  have bl: "butlast ((a # pre) @ pat) = a # butlast (pre @ pat)"
    using Cons.prems(1) by simp
  have np: "\<not> prefix pat (a # pre @ pat @ rest)"
  proof
    assume p: "prefix pat (a # pre @ pat @ rest)"
    have split: "a # pre @ pat @ rest = (a # pre @ butlast pat) @ (last pat # rest)"
      using Cons.prems(1) by simp
    from p have "prefix pat (a # pre @ butlast pat)
        \<or> (\<exists>us. pat = (a # pre @ butlast pat) @ us \<and> prefix us (last pat # rest))"
      unfolding split prefix_append by simp
    then have "prefix pat (a # pre @ butlast pat)"
    proof
      assume "\<exists>us. pat = (a # pre @ butlast pat) @ us \<and> prefix us (last pat # rest)"
      then obtain us where us: "pat = (a # pre @ butlast pat) @ us" by blast
      then have "length pat = length ((a # pre @ butlast pat) @ us)" by simp
      then have "length pat = Suc (length pre + (length pat - 1) + length us)" by simp
      moreover have "0 < length pat" using Cons.prems(1) by simp
      ultimately have "length us = 0" by arith
      then have "us = []" by simp
      with us show ?thesis by simp
    qed simp
    then have "str_includes (a # pre @ butlast pat) pat" by simp
    moreover have "butlast ((a # pre) @ pat) = a # pre @ butlast pat"
      using Cons.prems(1) by (simp add: butlast_append)
    ultimately show False using Cons.prems(2) by simp
  qed
  have "\<not> str_includes (butlast (pre @ pat)) pat"
    using Cons.prems(2) bl by simp
  with Cons.IH Cons.prems(1) np show ?case by simp
qed


section \<open>Presentation mode policy\<close>

text \<open>
  C1. For every input of \<open>getLocalPresentationMode\<close>: the result is \<open>'card'\<close> when
  \<open>userMatched\<close> is true and \<open>dismissed\<close> is false; otherwise it is \<open>'button'\<close> when the
  original presentation mode is \<open>'button'\<close>; otherwise it is \<open>'card'\<close> exactly when
  \<open>userRecognized\<close> is true and \<open>dismissed\<close> is false, and \<open>'button'\<close> in all remaining cases.
  The result depends on these four inputs only.
\<close>

theorem getLocalPresentationMode_policy:
  "(um = Some True \<and> \<not> d \<longrightarrow>
      getLocalPresentationMode \<lparr> gp_dismissed = d, gp_originalPresentationMode = m,
        gp_userMatched = um, gp_userRecognized = r \<rparr> = Card)
   \<and> (\<not> (um = Some True \<and> \<not> d) \<and> m = Button \<longrightarrow>
      getLocalPresentationMode \<lparr> gp_dismissed = d, gp_originalPresentationMode = m,
        gp_userMatched = um, gp_userRecognized = r \<rparr> = Button)
   \<and> (\<not> (um = Some True \<and> \<not> d) \<and> m \<noteq> Button \<longrightarrow>
      (getLocalPresentationMode \<lparr> gp_dismissed = d, gp_originalPresentationMode = m,
        gp_userMatched = um, gp_userRecognized = r \<rparr> = Card \<longleftrightarrow> r \<and> \<not> d)
      \<and> (getLocalPresentationMode \<lparr> gp_dismissed = d, gp_originalPresentationMode = m,
        gp_userMatched = um, gp_userRecognized = r \<rparr> = Button \<longleftrightarrow> \<not> (r \<and> \<not> d)))"
  by (cases um; cases m) (auto simp: getLocalPresentationMode_def truthy_def)

theorem getLocalPresentationMode_policy_witness:
  "getLocalPresentationMode \<lparr> gp_dismissed = False, gp_originalPresentationMode = Button,
        gp_userMatched = Some True, gp_userRecognized = False \<rparr> = Card
   \<and> getLocalPresentationMode \<lparr> gp_dismissed = True, gp_originalPresentationMode = Button,
        gp_userMatched = Some True, gp_userRecognized = True \<rparr> = Button
   \<and> getLocalPresentationMode \<lparr> gp_dismissed = False, gp_originalPresentationMode = Card,
        gp_userMatched = None, gp_userRecognized = True \<rparr> = Card
   \<and> getLocalPresentationMode \<lparr> gp_dismissed = True, gp_originalPresentationMode = Card,
        gp_userMatched = None, gp_userRecognized = True \<rparr> = Button"
  using getLocalPresentationMode_policy [of "Some True" False Button False]
        getLocalPresentationMode_policy [of "Some True" True Button True]
        getLocalPresentationMode_policy [of None False Card True]
        getLocalPresentationMode_policy [of None True Card True]
  by simp

lemma getLocalPresentationMode_dismissed:
  "gp_dismissed p \<Longrightarrow> getLocalPresentationMode p = Button"
  by (simp add: getLocalPresentationMode_def)


section \<open>The reducer\<close>

subsection \<open>Dismissal and the presentation mode\<close>

text \<open>
  C2, as stated, fails: after \<open>'dismiss'\<close>, the action \<open>'setLocalPresentationMode'\<close> with
  \<open>'card'\<close> gives a state reachable from the initial state that is dismissed and whose
  presentation mode is not \<open>'button'\<close>. The reducer stores the presentation it is handed.
\<close>

theorem dismissed_card_reachable:
  "dismissed (runActions initialState [(0, Dismiss), (0, SetLocalPresentationMode Card)])
   \<and> localPresentationMode
        (runActions initialState [(0, Dismiss), (0, SetLocalPresentationMode Card)]) \<noteq> Button"
  by (simp add: initialState_def)

lemma reducer_keeps_dismissedIsButton:
  "dismissedIsButton s \<Longrightarrow> \<not> (dismissed s \<and> writesCard a)
   \<Longrightarrow> dismissedIsButton (shopLoginReducer now s a)"
  by (cases a) (auto simp: dismissedIsButton_def writesCard_def initialState_def
       intro: PresentationMode.exhaust)

lemma runActions_keeps_dismissedIsButton:
  "dismissedIsButton s \<Longrightarrow> noCardWhileDismissed s acts
   \<Longrightarrow> dismissedIsButton (runActions s acts)"
proof (induction acts arbitrary: s)
  case Nil
  then show ?case by simp
next
  case (Cons x acts)
  obtain now a where x: "x = (now, a)" by (cases x)
  with Cons.prems have "dismissedIsButton (shopLoginReducer now s a)"
    by (simp add: reducer_keeps_dismissedIsButton)
  with Cons.IH Cons.prems x show ?case by simp
qed

text \<open>
  The presentation that the provider computes for \<open>'iframeLoaded'\<close>, with
  \<open>getLocalPresentationMode\<close> from the \<open>dismissed\<close> flag of the current state, is never a
  \<open>'card'\<close> written into a dismissed state.
\<close>

lemma policy_presentation_respects_dismissal:
  "\<not> (dismissed s \<and> writesCard (IframeLoaded (payload \<lparr> pl_presentation :=
        getLocalPresentationMode \<lparr> gp_dismissed = dismissed s,
          gp_originalPresentationMode = m, gp_userMatched = None,
          gp_userRecognized = pl_userFound payload \<rparr> \<rparr>)))"
  by (simp add: writesCard_def getLocalPresentationMode_dismissed)

text \<open>
  The \<open>'userMatched'\<close> case does not consult \<open>dismissed\<close>: without a cookie it stores
  \<open>'card'\<close> in a dismissed state too.
\<close>

lemma userMatched_ignores_dismissed:
  "dismissed s \<Longrightarrow> dismissed (shopLoginReducer now s (UserMatched False))
     \<and> localPresentationMode (shopLoginReducer now s (UserMatched False)) = Card"
  by simp

text \<open>
  C2, amended. In every state reached from an initial state (\<open>createInitialState\<close> with any
  arguments, \<open>initialState\<close> among them) by a sequence of \<open>shopLoginReducer\<close> actions in which
  no action carrying \<open>'card'\<close> is applied to a dismissed state, a true \<open>dismissed\<close> flag
  comes with the presentation mode \<open>'button'\<close>.
\<close>

theorem dismissed_is_button_invariant:
  "noCardWhileDismissed (createInitialState hint pm tv) acts
   \<Longrightarrow> dismissed (runActions (createInitialState hint pm tv) acts)
   \<Longrightarrow> localPresentationMode (runActions (createInitialState hint pm tv) acts) = Button"
  using runActions_keeps_dismissedIsButton [of "createInitialState hint pm tv" acts]
  by (simp add: dismissedIsButton_def createInitialState_def initialState_def)

theorem dismissed_is_button_invariant_witness:
  "noCardWhileDismissed (createInitialState None (Some Card) None)
     [(5, Mounted), (6, UserMatched False), (7, Dismiss), (8, SetProcessing True)]
   \<and> dismissed (runActions (createInitialState None (Some Card) None)
     [(5, Mounted), (6, UserMatched False), (7, Dismiss), (8, SetProcessing True)])
   \<and> localPresentationMode (runActions (createInitialState None (Some Card) None)
     [(5, Mounted), (6, UserMatched False), (7, Dismiss), (8, SetProcessing True)]) = Button"
  using dismissed_is_button_invariant [of None "Some Card" None
      "[(5, Mounted), (6, UserMatched False), (7, Dismiss), (8, SetProcessing True)]"]
  by (simp add: createInitialState_def initialState_def writesCard_def)

subsection \<open>The clock\<close>

text \<open>
  C3, as stated, fails: the same state and the same \<open>'mounted'\<close> action give different
  states at different clock readings.
\<close>

theorem shopLoginReducer_reads_clock:
  "shopLoginReducer 1 initialState Mounted \<noteq> shopLoginReducer 2 initialState Mounted"
  by (simp add: initialState_def)

text \<open>
  C3, amended. The result of \<open>shopLoginReducer\<close> is determined by the state, the action and
  the reading of the clock: for every action other than \<open>'mounted'\<close> it does not depend on
  the clock, and \<open>'mounted'\<close> stores the clock reading as \<open>mountedTimestamp\<close> and changes
  nothing else.
\<close>

theorem shopLoginReducer_clock_only_mounted:
  "(a \<noteq> Mounted \<longrightarrow> shopLoginReducer now s a = shopLoginReducer now' s a)
   \<and> shopLoginReducer now s Mounted = s \<lparr> mountedTimestamp := Some now \<rparr>"
  by (cases a) simp_all

theorem shopLoginReducer_clock_only_mounted_witness:
  "Dismiss \<noteq> Mounted
   \<and> shopLoginReducer 1 initialState Dismiss = shopLoginReducer 2 initialState Dismiss
   \<and> mountedTimestamp (shopLoginReducer 1 initialState Mounted) = Some 1"
  using shopLoginReducer_clock_only_mounted [of Dismiss 1 initialState 2] by simp

subsection \<open>What an action leaves alone\<close>

text \<open>
  C10. An action whose type is none of the eight handled types leaves the state as it is;
  \<open>'setProcessing'\<close> changes the \<open>processing\<close> field only and \<open>'setParentTheme'\<close> the
  \<open>parentTheme\<close> field only.
\<close>

theorem shopLoginReducer_frame:
  "(actionType a \<notin> set handledTypes \<longrightarrow> shopLoginReducer now s a = s)
   \<and> shopLoginReducer now s (SetProcessing b) = s \<lparr> processing := b \<rparr>
   \<and> shopLoginReducer now s (SetParentTheme t) = s \<lparr> parentTheme := t \<rparr>"
  by (cases a) (simp_all add: handledTypes_def)

theorem shopLoginReducer_frame_witness:
  "actionType (OtherAction ''focus'') \<notin> set handledTypes
   \<and> shopLoginReducer 0 initialState (OtherAction ''focus'') = initialState"
  using shopLoginReducer_frame [of "OtherAction ''focus''" 0 initialState]
  by (simp add: handledTypes_def)


section \<open>The Bugsnag filter\<close>

lemma dynamic_import_marker_is_fetch_marker:
  "optIncludes m ''Failed to fetch dynamically imported module''
   \<Longrightarrow> optIncludes m ''Failed to fetch''"
proof -
  have "str_includes ''Failed to fetch dynamically imported module'' ''Failed to fetch''"
    by simp
  then show "optIncludes m ''Failed to fetch dynamically imported module''
      \<Longrightarrow> optIncludes m ''Failed to fetch''"
    by (cases m) (auto simp: optIncludes_def intro: str_includes_trans)
qed

lemma isIgnorable_cases:
  "isIgnorable x feature \<longleftrightarrow>
     \<not> (\<exists>frame \<in> set (stacktrace x). inProject frame)
     \<or> (errorClass x = ''SecurityError''
         \<and> optIncludes (message x) SANDBOXED_COOKIE_ERROR_MARKER
         \<and> optIncludes (message x) SANDBOXED_MESSAGE_MARKER)
     \<or> (errorClass x = ''SecurityError''
         \<and> optIncludes (message x) CROSS_ORIGIN_FRAME_ERROR_MARKER
         \<and> optIncludes (message x) CROSS_ORIGIN_FRAME_ACCESS_MARKER
         \<and> (\<exists>f. feature = Some f \<and> f \<in> set SHOP_PAY_PAYMENT_REQUEST_FEATURE_ALLOWLIST))"
  by (cases feature) (auto simp: isIgnorable_def Let_def list_ex_iff)

lemma returned_false_iff:
  "returned (handleCreateBugsnagParamsError env event metadata) = ReturnFalse \<longleftrightarrow>
     (case exceptions event of
        [] \<Rightarrow> True
      | x # _ \<Rightarrow> isIgnorable x (featureOf metadata) \<or> isUnactionable x
                 \<or> isDynamicImportError x \<or> isNetworkError x)"
  by (simp add: handleCreateBugsnagParamsError_def split: list.splits)

lemma dynamic_import_calls:
  assumes "exceptions event = x # rest"
    and "optIncludes (message x) ''Failed to fetch dynamically imported module''"
  shows "networkErrorCalls (handleCreateBugsnagParamsError env event metadata) = []
         \<or> networkErrorCalls (handleCreateBugsnagParamsError env event metadata)
              = [Some DynamicImportError]"
    and "\<not> isIgnorable x (featureOf metadata) \<Longrightarrow> \<not> isUnactionable x \<Longrightarrow>
         networkErrorCalls (handleCreateBugsnagParamsError env event metadata)
           = [Some DynamicImportError]"
proof -
  have d: "isDynamicImportError x"
    using assms(2) by (simp add: isDynamicImportError_def DYNAMIC_IMPORT_ERRORS_def)
  show "networkErrorCalls (handleCreateBugsnagParamsError env event metadata) = []
         \<or> networkErrorCalls (handleCreateBugsnagParamsError env event metadata)
              = [Some DynamicImportError]"
    using assms(1) d by (simp add: handleCreateBugsnagParamsError_def)
  show "\<not> isIgnorable x (featureOf metadata) \<Longrightarrow> \<not> isUnactionable x \<Longrightarrow>
         networkErrorCalls (handleCreateBugsnagParamsError env event metadata)
           = [Some DynamicImportError]"
    using assms(1) d by (simp add: handleCreateBugsnagParamsError_def)
qed

text \<open>
  C4, as stated, fails in its second part: an in-project exception of class \<open>TypeError\<close>
  whose message contains \<open>Failed to fetch dynamically imported module\<close> is dropped by the
  check of the unactionable classes, which comes first, and \<open>onNetworkError\<close> is not called
  at all.
\<close>

theorem dynamic_import_TypeError_not_reported:
  "optIncludes (Some ''Failed to fetch dynamically imported module: https://cdn.example/chunk.js'')
      ''Failed to fetch dynamically imported module''
   \<and> networkErrorCalls (handleCreateBugsnagParamsError sampleEnvironment
        (sampleEvent ''TypeError''
           ''Failed to fetch dynamically imported module: https://cdn.example/chunk.js'')
        Map.empty) = []"
  by (simp add: optIncludes_def handleCreateBugsnagParamsError_def sampleEvent_def
      isIgnorable_def isUnactionable_def featureOf_def UNACTIONABLE_ERROR_CLASSES_def)

text \<open>
  C4, amended. The filter returns \<open>false\<close> exactly when the event has no exception, the first
  exception is ignorable (no in-project stack frame, a sandboxed-cookie \<open>SecurityError\<close>, or
  a cross-origin-frame \<open>SecurityError\<close> in a ShopPayPaymentRequest feature), its error class
  is in \<open>UNACTIONABLE_ERROR_CLASSES\<close>, or it is a dynamic-import or network error. An
  exception whose message contains \<open>Failed to fetch dynamically imported module\<close> also
  contains the network marker \<open>Failed to fetch\<close> and is a network error; for it
  \<open>onNetworkError\<close> is never called with the plain network-error type (no call without an
  argument, so \<open>'NetworkError'\<close> is never recorded), and when the exception is neither
  ignorable nor of an unactionable class, \<open>onNetworkError\<close> is called once, with
  \<open>'DynamicImportError'\<close>.
\<close>

theorem bugsnag_filter_drops:
  "(returned (handleCreateBugsnagParamsError env event metadata) = ReturnFalse \<longleftrightarrow>
     (case exceptions event of
        [] \<Rightarrow> True
      | x # _ \<Rightarrow>
          \<not> (\<exists>frame \<in> set (stacktrace x). inProject frame)
          \<or> (errorClass x = ''SecurityError''
              \<and> optIncludes (message x) SANDBOXED_COOKIE_ERROR_MARKER
              \<and> optIncludes (message x) SANDBOXED_MESSAGE_MARKER)
          \<or> (errorClass x = ''SecurityError''
              \<and> optIncludes (message x) CROSS_ORIGIN_FRAME_ERROR_MARKER
              \<and> optIncludes (message x) CROSS_ORIGIN_FRAME_ACCESS_MARKER
              \<and> (\<exists>f. featureOf metadata = Some f
                      \<and> f \<in> set SHOP_PAY_PAYMENT_REQUEST_FEATURE_ALLOWLIST))
          \<or> errorClass x \<in> set UNACTIONABLE_ERROR_CLASSES
          \<or> isDynamicImportError x \<or> isNetworkError x))
   \<and> (\<forall>x rest. exceptions event = x # rest
          \<and> optIncludes (message x) ''Failed to fetch dynamically imported module'' \<longrightarrow>
        optIncludes (message x) ''Failed to fetch'' \<and> isNetworkError x
        \<and> None \<notin> set (networkErrorCalls (handleCreateBugsnagParamsError env event metadata))
        \<and> NetworkError \<notin> set (map handleNetworkError
              (networkErrorCalls (handleCreateBugsnagParamsError env event metadata)))
        \<and> (\<not> isIgnorable x (featureOf metadata) \<and> \<not> isUnactionable x \<longrightarrow>
             networkErrorCalls (handleCreateBugsnagParamsError env event metadata)
               = [Some DynamicImportError]))"
proof (intro conjI allI impI)
  show "returned (handleCreateBugsnagParamsError env event metadata) = ReturnFalse \<longleftrightarrow>
     (case exceptions event of
        [] \<Rightarrow> True
      | x # _ \<Rightarrow>
          \<not> (\<exists>frame \<in> set (stacktrace x). inProject frame)
          \<or> (errorClass x = ''SecurityError''
              \<and> optIncludes (message x) SANDBOXED_COOKIE_ERROR_MARKER
              \<and> optIncludes (message x) SANDBOXED_MESSAGE_MARKER)
          \<or> (errorClass x = ''SecurityError''
              \<and> optIncludes (message x) CROSS_ORIGIN_FRAME_ERROR_MARKER
              \<and> optIncludes (message x) CROSS_ORIGIN_FRAME_ACCESS_MARKER
              \<and> (\<exists>f. featureOf metadata = Some f
                      \<and> f \<in> set SHOP_PAY_PAYMENT_REQUEST_FEATURE_ALLOWLIST))
          \<or> errorClass x \<in> set UNACTIONABLE_ERROR_CLASSES
          \<or> isDynamicImportError x \<or> isNetworkError x)"
    unfolding returned_false_iff
    by (cases "exceptions event")
       (simp_all only: list.case isIgnorable_cases isUnactionable_def disj_assoc)
next
  fix x rest
  assume a: "exceptions event = x # rest
          \<and> optIncludes (message x) ''Failed to fetch dynamically imported module''"
  then show f: "optIncludes (message x) ''Failed to fetch''"
    by (simp add: dynamic_import_marker_is_fetch_marker)
  then show "isNetworkError x"
    by (simp add: isNetworkError_def UNACTIONABLE_NETWORK_ERRORS_def)
  from a have calls:
    "networkErrorCalls (handleCreateBugsnagParamsError env event metadata) = []
     \<or> networkErrorCalls (handleCreateBugsnagParamsError env event metadata)
          = [Some DynamicImportError]"
    using dynamic_import_calls(1) by blast
  then show "None \<notin> set (networkErrorCalls (handleCreateBugsnagParamsError env event metadata))"
    by auto
  from calls show "NetworkError \<notin> set (map handleNetworkError
      (networkErrorCalls (handleCreateBugsnagParamsError env event metadata)))"
    by (auto simp: handleNetworkError_def)
  assume "\<not> isIgnorable x (featureOf metadata) \<and> \<not> isUnactionable x"
  with a show "networkErrorCalls (handleCreateBugsnagParamsError env event metadata)
               = [Some DynamicImportError]"
    using dynamic_import_calls(2) by blast
qed

theorem bugsnag_filter_drops_witness:
  "returned (handleCreateBugsnagParamsError sampleEnvironment
        (sampleEvent ''Error''
           ''Failed to fetch dynamically imported module: https://cdn.example/chunk.js'')
        Map.empty) = ReturnFalse
   \<and> networkErrorCalls (handleCreateBugsnagParamsError sampleEnvironment
        (sampleEvent ''Error''
           ''Failed to fetch dynamically imported module: https://cdn.example/chunk.js'')
        Map.empty) = [Some DynamicImportError]"
proof -
  let ?m = "''Failed to fetch dynamically imported module: https://cdn.example/chunk.js''"
  let ?x = "\<lparr> errorClass = ''Error'', message = Some ?m,
             stacktrace = [\<lparr> inProject = True \<rparr>] \<rparr>"
  have e: "exceptions (sampleEvent ''Error'' ?m) = ?x # []"
    by (simp add: sampleEvent_def)
  have d: "optIncludes (message ?x) ''Failed to fetch dynamically imported module''"
    by (simp add: optIncludes_def)
  have i: "\<not> isIgnorable ?x (featureOf Map.empty) \<and> \<not> isUnactionable ?x"
    by (simp add: isIgnorable_def isUnactionable_def featureOf_def
        UNACTIONABLE_ERROR_CLASSES_def)
  have di: "isDynamicImportError ?x"
    using d by (simp add: isDynamicImportError_def DYNAMIC_IMPORT_ERRORS_def)
  from bugsnag_filter_drops [of sampleEnvironment "sampleEvent ''Error'' ?m" Map.empty] e d i di
  show ?thesis by simp
qed


section \<open>Export with retries\<close>

lemma exportMetrics_first_step:
  "exportMetrics nt nf exporter k m opts n = Some (steps, settled)
   \<Longrightarrow> \<exists>later. steps = ExporterCall m opts (k n) # later"
  by (subst (asm) exportMetrics.simps)
     (auto split: ExportOutcome.splits option.splits Option.bind_splits)

lemma exportLogs_first_step:
  "exportLogs nt nf exporter k m opts n = Some (steps, settled)
   \<Longrightarrow> \<exists>later. steps = ExporterCall m opts (k n) # later"
  by (subst (asm) exportLogs.simps)
     (auto split: ExportOutcome.splits option.splits Option.bind_splits)

lemma exportMetrics_settles:
  "\<not> retryable (exporter (n + j)) \<Longrightarrow> \<forall>i<j. retryable (exporter (n + i))
   \<Longrightarrow> \<exists>steps. exportMetrics nt nf exporter k m opts n = Some steps"
proof (induction j arbitrary: n)
  case 0
  then show ?case
    by (subst exportMetrics.simps)
       (auto simp: retryable_def split: ExportOutcome.splits option.splits)
next
  case (Suc j)
  have "\<not> retryable (exporter (Suc n + j))" using Suc.prems(1) by simp
  moreover have "\<forall>i<j. retryable (exporter (Suc n + i))"
    using Suc.prems(2) by (metis Suc_less_eq add_Suc_shift)
  ultimately obtain steps where "exportMetrics nt nf exporter k m opts (Suc n) = Some steps"
    using Suc.IH by blast
  moreover have "retryable (exporter n)" using Suc.prems(2) [rule_format, of 0] by simp
  ultimately show ?case
    by (subst exportMetrics.simps)
       (auto simp: retryable_def split: ExportOutcome.splits option.splits)
qed

lemma exportLogs_settles:
  "\<not> retryable (exporter (n + j)) \<Longrightarrow> \<forall>i<j. retryable (exporter (n + i))
   \<Longrightarrow> \<exists>steps. exportLogs nt nf exporter k m opts n = Some steps"
proof (induction j arbitrary: n)
  case 0
  then show ?case
    by (subst exportLogs.simps)
       (auto simp: retryable_def split: ExportOutcome.splits option.splits)
next
  case (Suc j)
  have "\<not> retryable (exporter (Suc n + j))" using Suc.prems(1) by simp
  moreover have "\<forall>i<j. retryable (exporter (Suc n + i))"
    using Suc.prems(2) by (metis Suc_less_eq add_Suc_shift)
  ultimately obtain steps where "exportLogs nt nf exporter k m opts (Suc n) = Some steps"
    using Suc.IH by blast
  moreover have "retryable (exporter n)" using Suc.prems(2) [rule_format, of 0] by simp
  ultimately show ?case
    by (subst exportLogs.simps)
       (auto simp: retryable_def split: ExportOutcome.splits option.splits)
qed

text \<open>
  C5. For \<open>exportMetrics\<close> and \<open>exportLogs\<close> alike. When the wrapped exporter's call succeeds,
  the promise resolves after that one call. When the call fails with an
  \<open>OpenTelemetryClientError\<close> whose metadata carries \<open>retryAfter\<close>, a timer of
  \<open>retryAfter.seconds * 1_000\<close> milliseconds is armed after the call, the export is run again
  from there, beginning with a second call of the wrapped exporter with the same payload
  and options, and the returned promise resolves once that chain has settled and not
  otherwise. When the call fails with any other error, or with an
  \<open>OpenTelemetryClientError\<close> without \<open>retryAfter\<close>, the promise rejects with that very error
  after the one call, with no timer and no second call. The promise does settle whenever
  some call of the chain is not answered with \<open>retryAfter\<close>.
\<close>

theorem exportWithRetries_backoff:
  "(exporter n = Exported \<longrightarrow>
      exportMetrics nt nf exporter k p opts n = Some ([ExporterCall p opts (k n)], Resolved)
      \<and> exportLogs nt nf exporter k p opts n = Some ([ExporterCall p opts (k n)], Resolved))
   \<and> (exporter n = Failed (OpenTelemetryClientError (Some \<lparr> retryAfter = Some ra \<rparr>)) \<longrightarrow>
      exportMetrics nt nf exporter k p opts n =
        (case exportMetrics nt nf exporter k p opts (Suc n) of
           None \<Rightarrow> None
         | Some (chain, settled) \<Rightarrow>
             Some (ExporterCall p opts (k n) # SetTimeout (nt (seconds ra) (nf 1000)) # chain,
                   Resolved))
      \<and> exportLogs nt nf exporter k p opts n =
        (case exportLogs nt nf exporter k p opts (Suc n) of
           None \<Rightarrow> None
         | Some (chain, settled) \<Rightarrow>
             Some (ExporterCall p opts (k n) # SetTimeout (nt (seconds ra) (nf 1000)) # chain,
                   Resolved))
      \<and> (\<forall>steps settled. exportMetrics nt nf exporter k p opts n = Some (steps, settled) \<longrightarrow>
            (\<exists>later. steps = ExporterCall p opts (k n) # SetTimeout (nt (seconds ra) (nf 1000))
                               # ExporterCall p opts (k (Suc n)) # later))
      \<and> (\<forall>steps settled. exportLogs nt nf exporter k p opts n = Some (steps, settled) \<longrightarrow>
            (\<exists>later. steps = ExporterCall p opts (k n) # SetTimeout (nt (seconds ra) (nf 1000))
                               # ExporterCall p opts (k (Suc n)) # later)))
   \<and> (exporter n = Failed err
       \<and> (err = OtherError other \<or> err = OpenTelemetryClientError None
           \<or> err = OpenTelemetryClientError (Some \<lparr> retryAfter = None \<rparr>)) \<longrightarrow>
      exportMetrics nt nf exporter k p opts n = Some ([ExporterCall p opts (k n)], Rejected err)
      \<and> exportLogs nt nf exporter k p opts n = Some ([ExporterCall p opts (k n)], Rejected err))
   \<and> (\<not> retryable (exporter (n + j)) \<and> (\<forall>i<j. retryable (exporter (n + i))) \<longrightarrow>
      exportMetrics nt nf exporter k p opts n \<noteq> None
      \<and> exportLogs nt nf exporter k p opts n \<noteq> None)"
proof (intro conjI impI allI)
  assume a: "exporter n = Exported"
  show "exportMetrics nt nf exporter k p opts n = Some ([ExporterCall p opts (k n)], Resolved)"
    by (subst exportMetrics.simps) (simp add: a)
  show "exportLogs nt nf exporter k p opts n = Some ([ExporterCall p opts (k n)], Resolved)"
    by (subst exportLogs.simps) (simp add: a)
next
  assume a: "exporter n = Failed (OpenTelemetryClientError (Some \<lparr> retryAfter = Some ra \<rparr>))"
  show m: "exportMetrics nt nf exporter k p opts n =
        (case exportMetrics nt nf exporter k p opts (Suc n) of
           None \<Rightarrow> None
         | Some (chain, settled) \<Rightarrow>
             Some (ExporterCall p opts (k n) # SetTimeout (nt (seconds ra) (nf 1000)) # chain,
                   Resolved))"
    by (subst exportMetrics.simps) (simp add: a split: option.splits)
  show l: "exportLogs nt nf exporter k p opts n =
        (case exportLogs nt nf exporter k p opts (Suc n) of
           None \<Rightarrow> None
         | Some (chain, settled) \<Rightarrow>
             Some (ExporterCall p opts (k n) # SetTimeout (nt (seconds ra) (nf 1000)) # chain,
                   Resolved))"
    by (subst exportLogs.simps) (simp add: a split: option.splits)
  {
    fix steps settled
    assume s: "exportMetrics nt nf exporter k p opts n = Some (steps, settled)"
    with m obtain chain r where c: "exportMetrics nt nf exporter k p opts (Suc n) = Some (chain, r)"
      and st: "steps = ExporterCall p opts (k n) # SetTimeout (nt (seconds ra) (nf 1000)) # chain"
      by (auto split: option.splits)
    from exportMetrics_first_step [OF c] st
    show "\<exists>later. steps = ExporterCall p opts (k n) # SetTimeout (nt (seconds ra) (nf 1000))
                               # ExporterCall p opts (k (Suc n)) # later"
      by auto
  }
  {
    fix steps settled
    assume s: "exportLogs nt nf exporter k p opts n = Some (steps, settled)"
    with l obtain chain r where c: "exportLogs nt nf exporter k p opts (Suc n) = Some (chain, r)"
      and st: "steps = ExporterCall p opts (k n) # SetTimeout (nt (seconds ra) (nf 1000)) # chain"
      by (auto split: option.splits)
    from exportLogs_first_step [OF c] st
    show "\<exists>later. steps = ExporterCall p opts (k n) # SetTimeout (nt (seconds ra) (nf 1000))
                               # ExporterCall p opts (k (Suc n)) # later"
      by auto
  }
next
  assume a: "exporter n = Failed err
       \<and> (err = OtherError other \<or> err = OpenTelemetryClientError None
           \<or> err = OpenTelemetryClientError (Some \<lparr> retryAfter = None \<rparr>))"
  then have r: "retryAfterOf err = None" by auto
  show "exportMetrics nt nf exporter k p opts n = Some ([ExporterCall p opts (k n)], Rejected err)"
    by (subst exportMetrics.simps) (simp add: a r)
  show "exportLogs nt nf exporter k p opts n = Some ([ExporterCall p opts (k n)], Rejected err)"
    by (subst exportLogs.simps) (simp add: a r)
next
  assume a: "\<not> retryable (exporter (n + j)) \<and> (\<forall>i<j. retryable (exporter (n + i)))"
  show "exportMetrics nt nf exporter k p opts n \<noteq> None"
    using exportMetrics_settles [of exporter n j nt nf k p opts] a by auto
  show "exportLogs nt nf exporter k p opts n \<noteq> None"
    using exportLogs_settles [of exporter n j nt nf k p opts] a by auto
qed

theorem exportWithRetries_backoff_witness:
  "retryThenSuccess 0
     = Failed (OpenTelemetryClientError (Some \<lparr> retryAfter = Some \<lparr> seconds = 2 \<rparr> \<rparr>))
   \<and> retryThenSuccess 1 = Exported
   \<and> retryThenOffline 1 = Failed (OtherError ''offline'')
   \<and> exportMetrics (*) (\<lambda>i. i) retryThenSuccess (\<lambda>i. i > 0) ''metrics'' ''options'' 0
       = Some ([ExporterCall ''metrics'' ''options'' False, SetTimeout 2000,
                ExporterCall ''metrics'' ''options'' True], Resolved)
   \<and> exportLogs (*) (\<lambda>i. i) retryThenSuccess (\<lambda>i. i > 0) ''logs'' ''options'' 0
       = Some ([ExporterCall ''logs'' ''options'' False, SetTimeout 2000,
                ExporterCall ''logs'' ''options'' True], Resolved)
   \<and> exportMetrics (*) (\<lambda>i. i) retryThenOffline (\<lambda>i. i > 0) ''metrics'' ''options'' 1
       = Some ([ExporterCall ''metrics'' ''options'' True], Rejected (OtherError ''offline''))
   \<and> exportMetrics (*) (\<lambda>i. i) retryThenOffline (\<lambda>i. i > 0) ''metrics'' ''options'' 0
       = Some ([ExporterCall ''metrics'' ''options'' False, SetTimeout 2000,
                ExporterCall ''metrics'' ''options'' True], Resolved)
   \<and> retryable (retryThenSuccess 0) \<and> \<not> retryable (retryThenSuccess 1)
   \<and> exportMetrics (*) (\<lambda>i. i) retryThenSuccess (\<lambda>i. i > 0) ''metrics'' ''options'' 0 \<noteq> None"
proof -
  have s0: "retryThenSuccess 0
      = Failed (OpenTelemetryClientError (Some \<lparr> retryAfter = Some \<lparr> seconds = 2 \<rparr> \<rparr>))"
    by (simp add: retryThenSuccess_def)
  have s1: "retryThenSuccess (Suc 0) = Exported"
    by (simp add: retryThenSuccess_def)
  have o0: "retryThenOffline 0
      = Failed (OpenTelemetryClientError (Some \<lparr> retryAfter = Some \<lparr> seconds = 2 \<rparr> \<rparr>))"
    by (simp add: retryThenOffline_def)
  have o1: "retryThenOffline (Suc 0) = Failed (OtherError ''offline'')"
    by (simp add: retryThenOffline_def)
  have r: "retryable (retryThenSuccess 0) \<and> \<not> retryable (retryThenSuccess 1)"
    by (simp add: retryable_def retryThenSuccess_def)
  then have "\<not> retryable (retryThenSuccess (0 + 1))
      \<and> (\<forall>i<1. retryable (retryThenSuccess (0 + i)))"
    by simp
  then have settles:
    "exportMetrics (*) (\<lambda>i. i) retryThenSuccess (\<lambda>i. i > 0) ''metrics'' ''options'' 0 \<noteq> None"
    using exportWithRetries_backoff [where exporter = retryThenSuccess and n = 0 and j = 1
        and nt = "(*)" and nf = "\<lambda>i. i"
        and k = "\<lambda>i. i > 0" and p = "''metrics''" and opts = "''options''"]
    by blast
  have sm1: "exportMetrics (*) (\<lambda>i. i) retryThenSuccess (\<lambda>i. i > 0) ''metrics'' ''options'' (Suc 0)
       = Some ([ExporterCall ''metrics'' ''options'' True], Resolved)"
    using exportWithRetries_backoff [where exporter = retryThenSuccess and n = "Suc 0"
        and nt = "(*)" and nf = "\<lambda>i. i"
        and k = "\<lambda>i. i > 0" and p = "''metrics''" and opts = "''options''"] s1
    by simp
  have sl1: "exportLogs (*) (\<lambda>i. i) retryThenSuccess (\<lambda>i. i > 0) ''logs'' ''options'' (Suc 0)
       = Some ([ExporterCall ''logs'' ''options'' True], Resolved)"
    using exportWithRetries_backoff [where exporter = retryThenSuccess and n = "Suc 0"
        and nt = "(*)" and nf = "\<lambda>i. i"
        and k = "\<lambda>i. i > 0" and p = "''logs''" and opts = "''options''"] s1
    by simp
  have sm0: "exportMetrics (*) (\<lambda>i. i) retryThenSuccess (\<lambda>i. i > 0) ''metrics'' ''options'' 0
       = Some ([ExporterCall ''metrics'' ''options'' False, SetTimeout 2000,
                ExporterCall ''metrics'' ''options'' True], Resolved)"
    using exportWithRetries_backoff [where exporter = retryThenSuccess and n = 0
        and ra = "\<lparr> seconds = 2 \<rparr>" and nt = "(*)" and nf = "\<lambda>i. i"
        and k = "\<lambda>i. i > 0" and p = "''metrics''" and opts = "''options''"] s0 sm1
    by simp
  have sl0: "exportLogs (*) (\<lambda>i. i) retryThenSuccess (\<lambda>i. i > 0) ''logs'' ''options'' 0
       = Some ([ExporterCall ''logs'' ''options'' False, SetTimeout 2000,
                ExporterCall ''logs'' ''options'' True], Resolved)"
    using exportWithRetries_backoff [where exporter = retryThenSuccess and n = 0
        and ra = "\<lparr> seconds = 2 \<rparr>" and nt = "(*)" and nf = "\<lambda>i. i"
        and k = "\<lambda>i. i > 0" and p = "''logs''" and opts = "''options''"] s0 sl1
    by simp
  have om1: "exportMetrics (*) (\<lambda>i. i) retryThenOffline (\<lambda>i. i > 0) ''metrics'' ''options'' (Suc 0)
       = Some ([ExporterCall ''metrics'' ''options'' True], Rejected (OtherError ''offline''))"
    using exportWithRetries_backoff [where exporter = retryThenOffline and n = "Suc 0"
        and err = "OtherError ''offline''" and other = "''offline''"
        and nt = "(*)" and nf = "\<lambda>i. i"
        and k = "\<lambda>i. i > 0" and p = "''metrics''" and opts = "''options''"] o1
    by simp
  have om0: "exportMetrics (*) (\<lambda>i. i) retryThenOffline (\<lambda>i. i > 0) ''metrics'' ''options'' 0
       = Some ([ExporterCall ''metrics'' ''options'' False, SetTimeout 2000,
                ExporterCall ''metrics'' ''options'' True], Resolved)"
    using exportWithRetries_backoff [where exporter = retryThenOffline and n = 0
        and ra = "\<lparr> seconds = 2 \<rparr>" and nt = "(*)" and nf = "\<lambda>i. i"
        and k = "\<lambda>i. i > 0" and p = "''metrics''" and opts = "''options''"] o0 om1
    by simp
  from s0 s1 o1 sm0 sl0 om1 om0 r settles show ?thesis by simp
qed


section \<open>Windoid messages\<close>















section \<open>Posting after \<open>loaded\<close>\<close>







section \<open>Dynamic import errors\<close>

lemma convertStringToUrl_eq: "convertStringToUrl URL url = URL url"
  by (simp add: convertStringToUrl_def split: option.splits)

lemma DYNAMIC_IMPORT_PREFIX_nonempty: "DYNAMIC_IMPORT_PREFIX \<noteq> []"
  by (simp add: DYNAMIC_IMPORT_PREFIX_def)

text \<open>
  C8, as stated, fails: the text is removed wherever it first occurs, not only as a prefix.
  For a message that begins with a space before the text, \<open>extractUrlFromError\<close> returns the
  URL that follows, while the message stripped of the prefix (it has none) and trimmed is
  not a URL.
\<close>

theorem extractUrlFromError_not_prefix_strip:
  "extractUrlFromError httpsOnlyURL
     \<lparr> err_message = '' Failed to fetch dynamically imported module: https://cdn.example/chunk.js'' \<rparr>
     = Some ''https://cdn.example/chunk.js''
   \<and> spec_extractUrlFromError httpsOnlyURL
     \<lparr> err_message = '' Failed to fetch dynamically imported module: https://cdn.example/chunk.js'' \<rparr>
     = None"
  by (simp add: extractUrlFromError_def spec_extractUrlFromError_def httpsOnlyURL_def
      convertStringToUrl_def trim_def isWhiteSpace_def DYNAMIC_IMPORT_PREFIX_def stripPrefix_def)

text \<open>
  C8, amended. The classifiers are total and do not throw. \<open>isGenericModuleError\<close> holds
  exactly when the message contains \<open>Importing a module script failed\<close>.
  \<open>extractUrlFromError\<close> removes the first occurrence of
  \<open>Failed to fetch dynamically imported module: \<close> from the message, wherever it is, trims
  the result, and returns its parsed URL when it is a valid URL and null otherwise: for a
  message that begins with the text this strips the prefix, and a message that does not
  contain the text is trimmed and parsed as it is; in both of these cases the result is
  that of stripping the prefix.
\<close>

theorem dynamic_import_classifiers:
  "(isGenericModuleError e \<longleftrightarrow>
      (\<exists>before after. err_message e = before @ ''Importing a module script failed'' @ after))
   \<and> (\<forall>rest. err_message e = DYNAMIC_IMPORT_PREFIX @ rest
        \<longrightarrow> extractUrlFromError URL e = URL (trim rest))
   \<and> (\<forall>before rest. err_message e = before @ DYNAMIC_IMPORT_PREFIX @ rest
          \<and> \<not> str_includes (butlast (before @ DYNAMIC_IMPORT_PREFIX)) DYNAMIC_IMPORT_PREFIX
        \<longrightarrow> extractUrlFromError URL e = URL (trim (before @ rest)))
   \<and> (\<not> str_includes (err_message e) DYNAMIC_IMPORT_PREFIX
        \<longrightarrow> extractUrlFromError URL e = URL (trim (err_message e)))
   \<and> (prefix DYNAMIC_IMPORT_PREFIX (err_message e)
        \<or> \<not> str_includes (err_message e) DYNAMIC_IMPORT_PREFIX
        \<longrightarrow> extractUrlFromError URL e = spec_extractUrlFromError URL e)"
proof (intro conjI allI impI)
  show "isGenericModuleError e \<longleftrightarrow>
      (\<exists>before after. err_message e = before @ ''Importing a module script failed'' @ after)"
    by (simp only: isGenericModuleError_def str_includes_iff)
next
  fix rest assume "err_message e = DYNAMIC_IMPORT_PREFIX @ rest"
  then show "extractUrlFromError URL e = URL (trim rest)"
    by (simp add: extractUrlFromError_def convertStringToUrl_eq
        replaceFirst_prefix [OF DYNAMIC_IMPORT_PREFIX_nonempty])
next
  fix before rest
  assume "err_message e = before @ DYNAMIC_IMPORT_PREFIX @ rest
          \<and> \<not> str_includes (butlast (before @ DYNAMIC_IMPORT_PREFIX)) DYNAMIC_IMPORT_PREFIX"
  then show "extractUrlFromError URL e = URL (trim (before @ rest))"
    by (simp add: extractUrlFromError_def convertStringToUrl_eq
        replaceFirst_first [OF DYNAMIC_IMPORT_PREFIX_nonempty])
next
  assume "\<not> str_includes (err_message e) DYNAMIC_IMPORT_PREFIX"
  then show "extractUrlFromError URL e = URL (trim (err_message e))"
    by (simp add: extractUrlFromError_def convertStringToUrl_eq replaceFirst_absent)
next
  assume a: "prefix DYNAMIC_IMPORT_PREFIX (err_message e)
     \<or> \<not> str_includes (err_message e) DYNAMIC_IMPORT_PREFIX"
  show "extractUrlFromError URL e = spec_extractUrlFromError URL e"
  proof (cases "prefix DYNAMIC_IMPORT_PREFIX (err_message e)")
    case True
    then obtain rest where "err_message e = DYNAMIC_IMPORT_PREFIX @ rest"
      by (auto simp: prefix_def)
    then show ?thesis
      by (simp add: extractUrlFromError_def spec_extractUrlFromError_def stripPrefix_def
          convertStringToUrl_eq replaceFirst_prefix [OF DYNAMIC_IMPORT_PREFIX_nonempty])
  next
    case False
    with a have "\<not> str_includes (err_message e) DYNAMIC_IMPORT_PREFIX" by simp
    with False show ?thesis
      by (simp add: extractUrlFromError_def spec_extractUrlFromError_def stripPrefix_def
          convertStringToUrl_eq replaceFirst_absent)
  qed
qed

theorem dynamic_import_classifiers_witness:
  "extractUrlFromError httpsOnlyURL
     \<lparr> err_message = ''Failed to fetch dynamically imported module: https://cdn.example/chunk.js '' \<rparr>
     = Some ''https://cdn.example/chunk.js''
   \<and> isGenericModuleError \<lparr> err_message = ''TypeError: Importing a module script failed.'' \<rparr>
   \<and> extractUrlFromError httpsOnlyURL \<lparr> err_message = ''Importing a module script failed.'' \<rparr>
     = None"
proof -
  let ?e = "\<lparr> err_message =
    ''Failed to fetch dynamically imported module: https://cdn.example/chunk.js '' \<rparr>"
  let ?g = "\<lparr> err_message = ''TypeError: Importing a module script failed.'' \<rparr>"
  let ?h = "\<lparr> err_message = ''Importing a module script failed.'' \<rparr>"
  have 1: "err_message ?e = DYNAMIC_IMPORT_PREFIX @ ''https://cdn.example/chunk.js ''"
    by (simp add: DYNAMIC_IMPORT_PREFIX_def)
  have 2: "err_message ?g = ''TypeError: '' @ ''Importing a module script failed'' @ ''.''"
    by simp
  have 3: "\<not> str_includes (err_message ?h) DYNAMIC_IMPORT_PREFIX"
    by (simp add: DYNAMIC_IMPORT_PREFIX_def)
  from 1 dynamic_import_classifiers [of ?e httpsOnlyURL]
  have "extractUrlFromError httpsOnlyURL ?e
      = httpsOnlyURL (trim ''https://cdn.example/chunk.js '')"
    by blast
  moreover from 2 dynamic_import_classifiers [of ?g httpsOnlyURL]
  have "isGenericModuleError ?g" by blast
  moreover from 3 dynamic_import_classifiers [of ?h httpsOnlyURL]
  have "extractUrlFromError httpsOnlyURL ?h = httpsOnlyURL (trim (err_message ?h))" by blast
  ultimately show ?thesis
    by (simp add: httpsOnlyURL_def trim_def isWhiteSpace_def)
qed


section \<open>Grouping OpenTelemetry errors\<close>

text \<open>
  C9 does not hold of the code. \<open>groupOpentelError\<close> never returns one of the nine keys of
  \<open>opentelErrorGrouping\<close>: it returns \<open>'otherErrors'\<close> or a single character, the first
  character of the first grouped message whose second character occurs in the error's
  message. For the message \<open>Blocked Request\<close> it returns \<open>B\<close>, not \<open>blockedRequest\<close>, and
  for \<open>timeout\<close>, which contains no grouped message, it returns \<open>M\<close>, not \<open>otherErrors\<close>.
\<close>

theorem groupOpentelError_returns_first_character:
  "groupOpentelError e \<notin> set (objectKeys opentelErrorGrouping)
   \<and> groupOpentelError \<lparr> err_message = ''Blocked Request'' \<rparr> = ''B''
   \<and> groupOpentelError \<lparr> err_message = ''timeout'' \<rparr> = ''M''"
proof -
  have len: "groupOpentelError e = ''otherErrors'' \<or> length (groupOpentelError e) = 1"
    by (auto simp: groupOpentelError_def firstElement_def Let_def
        split: option.splits list.splits)
  have "\<forall>k \<in> set (objectKeys opentelErrorGrouping). k \<noteq> ''otherErrors'' \<and> length k \<noteq> 1"
    by (simp add: objectKeys_def opentelErrorGrouping_def)
  with len have "groupOpentelError e \<notin> set (objectKeys opentelErrorGrouping)" by auto
  moreover have "groupOpentelError \<lparr> err_message = ''Blocked Request'' \<rparr> = ''B''"
    by (simp add: groupOpentelError_def objectValues_def opentelErrorGrouping_def
        includesValue_def secondElement_def firstElement_def)
  moreover have "groupOpentelError \<lparr> err_message = ''timeout'' \<rparr> = ''M''"
    by (simp add: groupOpentelError_def objectValues_def opentelErrorGrouping_def
        includesValue_def secondElement_def firstElement_def)
  ultimately show ?thesis by simp
qed

end
